theory Spec2Isabelle
  imports Main "HOL-Library.Word"
begin

section \<open>Strings of the host language\<close>

text \<open>
  A TypeScript string is a sequence of UTF-16 code units. \<open>ascii\<close> embeds a literal of
  the source (all literals of \<^verbatim>\<open>App.tsx\<close> are ASCII) into that type.
\<close>

type_synonym jsstring = "16 word list"

definition ascii :: "string \<Rightarrow> jsstring" where
  "ascii s = map (\<lambda>c. of_nat (of_char c)) s"

text \<open>
  \<^verbatim>\<open>String.prototype.trim\<close> removes the leading and trailing code units that are
  WhiteSpace or LineTerminator of ECMAScript: TAB, LF, VT, FF, CR, SP, NBSP, U+1680,
  U+2000 to U+200A, U+2028, U+2029, U+202F, U+205F, U+3000 and U+FEFF.
\<close>

definition is_js_whitespace :: "16 word \<Rightarrow> bool" where
  "is_js_whitespace c \<longleftrightarrow>
     c \<in> set [0x09, 0x0A, 0x0B, 0x0C, 0x0D, 0x20, 0xA0, 0x1680,
               0x2000, 0x2001, 0x2002, 0x2003, 0x2004, 0x2005, 0x2006, 0x2007,
               0x2008, 0x2009, 0x200A, 0x2028, 0x2029, 0x202F, 0x205F, 0x3000, 0xFEFF]"

definition trim :: "jsstring \<Rightarrow> jsstring" where
  "trim s = rev (dropWhile is_js_whitespace (rev (dropWhile is_js_whitespace s)))"

section \<open>State of the component\<close>

text \<open>\<^verbatim>\<open>interface KeyValue { id: number; key: string; value: string }\<close>. The ids are
  readings of \<^verbatim>\<open>Date.now()\<close>, integers of milliseconds.\<close>

record KeyValue =
  kv_id :: int
  kv_key :: jsstring
  kv_value :: jsstring

text \<open>JSON values: what \<^verbatim>\<open>res.json()\<close> returns and what \<^verbatim>\<open>JSON.stringify\<close> renders.\<close>

datatype json =
    JNull
  | JBool bool
  | JNum int
  | JStr jsstring
  | JArr "json list"
  | JObj "(jsstring \<times> json) list"

text \<open>
  The object \<^verbatim>\<open>{ status: res.status, statusText: res.statusText, data: data }\<close> of
  line 91. The component stores its rendering by \<^verbatim>\<open>JSON.stringify(\<dots>, null, 2)\<close>, a
  non-empty string; the model keeps the object that is rendered.
\<close>

record response_doc =
  status :: int
  statusText :: jsstring
  data :: json

text \<open>The eight \<^verbatim>\<open>useState\<close> cells of \<^verbatim>\<open>ApiBuilder\<close> (lines 10 to 17).\<close>

record ApiBuilder =
  apiUrl :: jsstring
  apiMethod :: jsstring
  queryParams :: "KeyValue list"
  headers :: "KeyValue list"
  requestBody :: jsstring
  response :: "response_doc option"
  isLoading :: bool
  error :: "jsstring option"

text \<open>The initial values of the cells; \<open>now\<close> is the reading of \<^verbatim>\<open>Date.now()\<close> at line 13.\<close>

definition initial :: "int \<Rightarrow> ApiBuilder" where
  "initial now =
     \<lparr> apiUrl = ascii ''https://jsonplaceholder.typicode.com/posts/1'',
       apiMethod = ascii ''GET'',
       queryParams = [],
       headers = [\<lparr> kv_id = now, kv_key = ascii ''Content-Type'',
                     kv_value = ascii ''application/json'' \<rparr>],
       requestBody = [],
       response = None,
       isLoading = False,
       error = None \<rparr>"

definition methodsWithBody :: "jsstring list" where
  "methodsWithBody = [ascii ''POST'', ascii ''PUT'', ascii ''PATCH'']"

section \<open>Handlers of the two key/value lists\<close>

text \<open>The second argument of \<^verbatim>\<open>updateQueryParam\<close> and \<^verbatim>\<open>updateHeader\<close>: \<^verbatim>\<open>'key' | 'value'\<close>.\<close>

datatype field = Key | Value

text \<open>\<^verbatim>\<open>{ ...param, [field]: value }\<close>\<close>

fun set_field :: "KeyValue \<Rightarrow> field \<Rightarrow> jsstring \<Rightarrow> KeyValue" where
  "set_field p Key v = p\<lparr>kv_key := v\<rparr>"
| "set_field p Value v = p\<lparr>kv_value := v\<rparr>"

text \<open>In the handlers that create an entry, \<open>now\<close> is the reading of \<^verbatim>\<open>Date.now()\<close>.\<close>

definition addQueryParam :: "int \<Rightarrow> ApiBuilder \<Rightarrow> ApiBuilder" where
  "addQueryParam now st =
     st\<lparr>queryParams := queryParams st @ [\<lparr>kv_id = now, kv_key = [], kv_value = []\<rparr>]\<rparr>"

definition updateQueryParam :: "int \<Rightarrow> field \<Rightarrow> jsstring \<Rightarrow> ApiBuilder \<Rightarrow> ApiBuilder" where
  "updateQueryParam i f v st =
     st\<lparr>queryParams :=
          map (\<lambda>param. if kv_id param = i then set_field param f v else param)
            (queryParams st)\<rparr>"

definition removeQueryParam :: "int \<Rightarrow> ApiBuilder \<Rightarrow> ApiBuilder" where
  "removeQueryParam i st =
     st\<lparr>queryParams := filter (\<lambda>param. kv_id param \<noteq> i) (queryParams st)\<rparr>"

definition addHeader :: "int \<Rightarrow> ApiBuilder \<Rightarrow> ApiBuilder" where
  "addHeader now st =
     st\<lparr>headers := headers st @ [\<lparr>kv_id = now, kv_key = [], kv_value = []\<rparr>]\<rparr>"

definition updateHeader :: "int \<Rightarrow> field \<Rightarrow> jsstring \<Rightarrow> ApiBuilder \<Rightarrow> ApiBuilder" where
  "updateHeader i f v st =
     st\<lparr>headers :=
          map (\<lambda>header. if kv_id header = i then set_field header f v else header)
            (headers st)\<rparr>"

definition removeHeader :: "int \<Rightarrow> ApiBuilder \<Rightarrow> ApiBuilder" where
  "removeHeader i st =
     st\<lparr>headers := filter (\<lambda>header. kv_id header \<noteq> i) (headers st)\<rparr>"

text \<open>
  \<^verbatim>\<open>loadExample\<close> (lines 122 to 137). \<open>now1\<close> and \<open>now2\<close> are the two readings of
  \<^verbatim>\<open>Date.now()\<close> at lines 127 and 128; the body is the rendering of
  \<^verbatim>\<open>{ title: 'foo', body: 'bar', userId: 1 }\<close> with an indentation of two.
\<close>

definition loadExample :: "int \<Rightarrow> int \<Rightarrow> ApiBuilder \<Rightarrow> ApiBuilder" where
  \<open>loadExample now1 now2 st =
     st\<lparr> apiUrl := ascii ''https://jsonplaceholder.typicode.com/posts'',
         apiMethod := ascii ''POST'',
         queryParams := [],
         headers := [\<lparr> kv_id = now1, kv_key = ascii ''Content-Type'',
                        kv_value = ascii ''application/json'' \<rparr>,
                     \<lparr> kv_id = now2 + 1, kv_key = ascii ''Authorization'',
                        kv_value = ascii ''Bearer YOUR_TOKEN_HERE'' \<rparr>],
         requestBody :=
           ascii ''{\<newline>  "title": "foo",\<newline>  "body": "bar",\<newline>  "userId": 1\<newline>}'',
         response := None,
         error := None \<rparr>\<close>

section \<open>Platform model: objects used as records, \<^verbatim>\<open>URLSearchParams\<close>\<close>

text \<open>
  An insertion-ordered map as an association list with distinct keys: setting a key that
  is present replaces its value in place, setting a new key appends it.
\<close>

definition omap_set :: "('k \<times> 'v) list \<Rightarrow> 'k \<Rightarrow> 'v \<Rightarrow> ('k \<times> 'v) list" where
  "omap_set m k v =
     (if k \<in> set (map fst m)
      then map (\<lambda>(k', v'). if k' = k then (k', v) else (k', v')) m
      else m @ [(k, v)])"

text \<open>
  The accumulator of \<^verbatim>\<open>reduce\<close> at line 62 is an ordinary object \<^verbatim>\<open>{}\<close> whose property
  values are strings: its own properties in creation order. The assignment
  \<^verbatim>\<open>acc[param.key] = param.value\<close> creates or overwrites an own property, except for the
  key \<^verbatim>\<open>__proto__\<close>: that runs the setter inherited from \<^verbatim>\<open>Object.prototype\<close>, which
  ignores a value that is neither an object nor null.
\<close>

type_synonym js_object = "(jsstring \<times> jsstring) list"

definition prop_assign :: "js_object \<Rightarrow> jsstring \<Rightarrow> jsstring \<Rightarrow> js_object" where
  "prop_assign acc k v = (if k = ascii ''__proto__'' then acc else omap_set acc k v)"

text \<open>
  An array index is the canonical decimal numeral of an integer from 0 to \<open>2^32 - 2\<close>.
  The own keys of an ordinary object are enumerated with the array indices first, in
  ascending numeric order, then the other strings in creation order.
\<close>

definition is_digit :: "16 word \<Rightarrow> bool" where
  "is_digit c \<longleftrightarrow> 0x30 \<le> c \<and> c \<le> 0x39"

definition digits_value :: "jsstring \<Rightarrow> nat" where
  "digits_value s = foldl (\<lambda>n c. 10 * n + (unat c - 48)) 0 s"

definition array_index :: "jsstring \<Rightarrow> nat option" where
  "array_index s =
     (if s \<noteq> [] \<and> list_all is_digit s \<and> (s = [0x30] \<or> take 1 s \<noteq> [0x30])
         \<and> digits_value s < 4294967295
      then Some (digits_value s) else None)"

definition index_value :: "jsstring \<Rightarrow> nat" where
  "index_value s = (case array_index s of Some n \<Rightarrow> n | None \<Rightarrow> 0)"

definition own_entries :: "js_object \<Rightarrow> (jsstring \<times> jsstring) list" where
  "own_entries obj =
     sort_key (\<lambda>e. index_value (fst e)) (filter (\<lambda>e. array_index (fst e) \<noteq> None) obj)
     @ filter (\<lambda>e. array_index (fst e) = None) obj"

text \<open>
  Conversion of a string to a \<^verbatim>\<open>USVString\<close>: the sequence of its code points, every
  unpaired surrogate replaced by U+FFFD.
\<close>

definition is_lead :: "16 word \<Rightarrow> bool" where
  "is_lead c \<longleftrightarrow> 0xD800 \<le> c \<and> c \<le> 0xDBFF"

definition is_trail :: "16 word \<Rightarrow> bool" where
  "is_trail c \<longleftrightarrow> 0xDC00 \<le> c \<and> c \<le> 0xDFFF"

fun to_usv :: "jsstring \<Rightarrow> nat list" where
  "to_usv [] = []"
| "to_usv [c] = [if is_lead c \<or> is_trail c then 0xFFFD else unat c]"
| "to_usv (c # d # cs) =
     (if is_lead c \<and> is_trail d
      then (0x10000 + (unat c - 0xD800) * 0x400 + (unat d - 0xDC00)) # to_usv cs
      else (if is_lead c \<or> is_trail c then 0xFFFD else unat c) # to_usv (d # cs))"

text \<open>
  \<^verbatim>\<open>new URLSearchParams(record)\<close>: the own entries of the object in key order, names and
  values converted to \<^verbatim>\<open>USVString\<close>; a name that is already in the list (two keys can
  only coincide after the replacement of unpaired surrogates) has its value replaced.
\<close>

definition record_usv :: "(jsstring \<times> jsstring) list \<Rightarrow> (nat list \<times> nat list) list" where
  "record_usv es = foldl (\<lambda>r e. omap_set r (to_usv (fst e)) (to_usv (snd e))) [] es"

definition URLSearchParams_new :: "js_object \<Rightarrow> (nat list \<times> nat list) list" where
  "URLSearchParams_new obj = record_usv (own_entries obj)"

text \<open>
  \<^verbatim>\<open>toString()\<close>: the application/x-www-form-urlencoded serializer. Names and values are
  encoded in UTF-8; a byte that is an ASCII letter or digit or one of \<^verbatim>\<open>* - . _\<close> is
  written as it is, the space as \<^verbatim>\<open>+\<close>, any other byte as \<^verbatim>\<open>%\<close> and two upper-case
  hexadecimal digits. The pairs are written \<^verbatim>\<open>name=value\<close> and joined by \<^verbatim>\<open>&\<close>.
\<close>

definition utf8_encode :: "nat \<Rightarrow> nat list" where
  "utf8_encode cp =
     (if cp < 0x80 then [cp]
      else if cp < 0x800 then [0xC0 + cp div 0x40, 0x80 + cp mod 0x40]
      else if cp < 0x10000
        then [0xE0 + cp div 0x1000, 0x80 + cp div 0x40 mod 0x40, 0x80 + cp mod 0x40]
      else [0xF0 + cp div 0x40000, 0x80 + cp div 0x1000 mod 0x40,
            0x80 + cp div 0x40 mod 0x40, 0x80 + cp mod 0x40])"

definition hex_digit :: "nat \<Rightarrow> 16 word" where
  "hex_digit n = (if n < 10 then of_nat (0x30 + n) else of_nat (0x41 + (n - 10)))"

definition urlencode_byte :: "nat \<Rightarrow> jsstring" where
  "urlencode_byte b =
     (if b = 0x20 then [0x2B]
      else if (0x30 \<le> b \<and> b \<le> 0x39) \<or> (0x41 \<le> b \<and> b \<le> 0x5A) \<or> (0x61 \<le> b \<and> b \<le> 0x7A)
              \<or> b = 0x2A \<or> b = 0x2D \<or> b = 0x2E \<or> b = 0x5F
        then [of_nat b]
      else [0x25, hex_digit (b div 16), hex_digit (b mod 16)])"

definition urlencode :: "nat list \<Rightarrow> jsstring" where
  "urlencode cps = concat (map urlencode_byte (concat (map utf8_encode cps)))"

fun urlencoded_serialize :: "(nat list \<times> nat list) list \<Rightarrow> jsstring" where
  "urlencoded_serialize [] = []"
| "urlencoded_serialize [(n, v)] = urlencode n @ [0x3D] @ urlencode v"
| "urlencoded_serialize ((n, v) # p # ps) =
     urlencode n @ [0x3D] @ urlencode v @ [0x26] @ urlencoded_serialize (p # ps)"

definition URLSearchParams_toString :: "(nat list \<times> nat list) list \<Rightarrow> jsstring" where
  "URLSearchParams_toString ps = urlencoded_serialize ps"

section \<open>Assembly of the URL (lines 57 to 69)\<close>

definition filteredParams :: "ApiBuilder \<Rightarrow> KeyValue list" where
  "filteredParams st = filter (\<lambda>param. trim (kv_key param) \<noteq> []) (queryParams st)"

text \<open>The \<^verbatim>\<open>reduce\<close> of lines 62 to 65.\<close>

definition queryRecord :: "KeyValue list \<Rightarrow> js_object" where
  "queryRecord ps = foldl (\<lambda>acc param. prop_assign acc (kv_key param) (kv_value param)) [] ps"

definition finalUrl :: "ApiBuilder \<Rightarrow> jsstring" where
  "finalUrl st =
     (if length (queryParams st) > 0
      then (if length (filteredParams st) > 0
            then apiUrl st @ ascii ''?'' @
                   URLSearchParams_toString (URLSearchParams_new (queryRecord (filteredParams st)))
            else apiUrl st)
      else apiUrl st)"


section \<open>Platform model: \<^verbatim>\<open>Headers\<close>\<close>

text \<open>
  \<^verbatim>\<open>new Headers()\<close> is an empty header list with guard none. \<^verbatim>\<open>append(name, value)\<close>
  converts both arguments to byte strings (a code unit above 255 throws a TypeError),
  strips the leading and trailing HTTP whitespace of the value, throws a TypeError unless
  the name is a token and the value a header value, and appends the pair at the end of
  the list; when the list already has the name up to the case of ASCII letters, the
  spelling of the first such header is used.
\<close>

datatype js_error = TypeError

type_synonym header_list = "(jsstring \<times> jsstring) list"

definition is_bytestring :: "jsstring \<Rightarrow> bool" where
  "is_bytestring s = list_all (\<lambda>c. c \<le> 0xFF) s"

definition is_http_whitespace :: "16 word \<Rightarrow> bool" where
  "is_http_whitespace c \<longleftrightarrow> c = 0x09 \<or> c = 0x0A \<or> c = 0x0D \<or> c = 0x20"

definition normalize_value :: "jsstring \<Rightarrow> jsstring" where
  "normalize_value v =
     rev (dropWhile is_http_whitespace (rev (dropWhile is_http_whitespace v)))"

definition is_tchar :: "16 word \<Rightarrow> bool" where
  "is_tchar c \<longleftrightarrow>
     (0x30 \<le> c \<and> c \<le> 0x39) \<or> (0x41 \<le> c \<and> c \<le> 0x5A) \<or> (0x61 \<le> c \<and> c \<le> 0x7A) \<or>
     c \<in> set [0x21, 0x23, 0x24, 0x25, 0x26, 0x27, 0x2A, 0x2B, 0x2D, 0x2E,
               0x5E, 0x5F, 0x60, 0x7C, 0x7E]"

definition is_header_name :: "jsstring \<Rightarrow> bool" where
  "is_header_name n \<longleftrightarrow> n \<noteq> [] \<and> list_all is_tchar n"

definition is_header_value :: "jsstring \<Rightarrow> bool" where
  "is_header_value v \<longleftrightarrow>
     (v \<noteq> [] \<longrightarrow> hd v \<noteq> 0x09 \<and> hd v \<noteq> 0x20 \<and> last v \<noteq> 0x09 \<and> last v \<noteq> 0x20) \<and>
     list_all (\<lambda>c. c \<noteq> 0x00 \<and> c \<noteq> 0x0A \<and> c \<noteq> 0x0D) v"

definition byte_lowercase :: "16 word \<Rightarrow> 16 word" where
  "byte_lowercase c = (if 0x41 \<le> c \<and> c \<le> 0x5A then c + 0x20 else c)"

definition same_name :: "jsstring \<Rightarrow> jsstring \<Rightarrow> bool" where
  "same_name a b \<longleftrightarrow> map byte_lowercase a = map byte_lowercase b"

definition header_list_append :: "header_list \<Rightarrow> jsstring \<Rightarrow> jsstring \<Rightarrow> header_list" where
  "header_list_append hl name v =
     hl @ [(case find (\<lambda>h. same_name (fst h) name) hl of
              Some h \<Rightarrow> fst h | None \<Rightarrow> name, v)]"

definition Headers_append :: "header_list \<Rightarrow> jsstring \<Rightarrow> jsstring \<Rightarrow> js_error + header_list" where
  "Headers_append hl name v =
     (if \<not> is_bytestring name \<or> \<not> is_bytestring v then Inl TypeError
      else if \<not> is_header_name name \<or> \<not> is_header_value (normalize_value v)
        then Inl TypeError
      else Inr (header_list_append hl name (normalize_value v)))"

text \<open>
  Reading a name from a header list: the values of all headers with that name, in the
  order of the list, joined by a comma and a space; nothing when the name is absent.
\<close>

fun join_values :: "jsstring list \<Rightarrow> jsstring" where
  "join_values [] = []"
| "join_values [v] = v"
| "join_values (v # w # vs) = v @ [0x2C, 0x20] @ join_values (w # vs)"

definition header_list_get :: "header_list \<Rightarrow> jsstring \<Rightarrow> jsstring option" where
  "header_list_get hl name =
     (let vs = map snd (filter (\<lambda>h. same_name (fst h) name) hl)
      in if vs = [] then None else Some (join_values vs))"

section \<open>Assembly of the request (lines 72 to 86)\<close>

text \<open>The \<^verbatim>\<open>forEach\<close> of lines 73 to 77; an exception of \<^verbatim>\<open>append\<close> leaves the loop.\<close>

fun appendHeaders :: "KeyValue list \<Rightarrow> header_list \<Rightarrow> js_error + header_list" where
  "appendHeaders [] hl = Inr hl"
| "appendHeaders (header # rest) hl =
     (if trim (kv_key header) \<noteq> []
      then (case Headers_append hl (kv_key header) (kv_value header) of
              Inl e \<Rightarrow> Inl e
            | Inr hl' \<Rightarrow> appendHeaders rest hl')
      else appendHeaders rest hl)"

definition requestHeaders :: "ApiBuilder \<Rightarrow> js_error + header_list" where
  "requestHeaders st = appendHeaders (headers st) []"

text \<open>The two arguments of \<^verbatim>\<open>fetch\<close>: the URL and \<^verbatim>\<open>requestOptions\<close>.\<close>

record OutboundRequest =
  req_url :: jsstring
  req_method :: jsstring
  req_headers :: header_list
  req_body :: "jsstring option"

text \<open>
  Lines 57 to 86: the request that is handed to \<^verbatim>\<open>fetch\<close>, or the exception thrown on
  the way. Those lines are outside the \<^verbatim>\<open>try\<close> block.
\<close>

definition assemble :: "ApiBuilder \<Rightarrow> js_error + OutboundRequest" where
  "assemble st =
     (case requestHeaders st of
        Inl e \<Rightarrow> Inl e
      | Inr hs \<Rightarrow>
          Inr \<lparr> req_url = finalUrl st,
                req_method = apiMethod st,
                req_headers = hs,
                req_body =
                  (if apiMethod st \<in> set methodsWithBody \<and> trim (requestBody st) \<noteq> []
                   then Some (requestBody st) else None) \<rparr>)"

section \<open>Dispatch (lines 52 to 97)\<close>

text \<open>
  What the two awaited promises of lines 89 and 90 deliver: \<^verbatim>\<open>fetch\<close> rejects, or gives a
  response with its status and status text, whose \<^verbatim>\<open>json()\<close> gives the parsed body or
  rejects. A rejection carries the text that \<^verbatim>\<open>${err.message}\<close> renders.
\<close>

datatype body_outcome = Parsed json | ParseFailed jsstring

datatype fetch_outcome = Rejected jsstring | Responded int jsstring body_outcome

text \<open>
  \<^verbatim>\<open>handleTestApi\<close> runs in two synchronous parts, separated by the awaits. The first sets
  the three display cells and assembles the request; when the assembly throws, nothing
  else of the handler runs.
\<close>

definition handleTestApi_begin :: "ApiBuilder \<Rightarrow> ApiBuilder \<times> (js_error + OutboundRequest)" where
  "handleTestApi_begin st =
     (st\<lparr>isLoading := True, error := None, response := None\<rparr>, assemble st)"

text \<open>The second part: lines 91 to 96, the \<^verbatim>\<open>try\<close> body, \<^verbatim>\<open>catch\<close> and \<^verbatim>\<open>finally\<close>.\<close>

fun handleTestApi_settle :: "fetch_outcome \<Rightarrow> ApiBuilder \<Rightarrow> ApiBuilder" where
  "handleTestApi_settle (Responded s t (Parsed d)) st =
     st\<lparr>response := Some \<lparr>status = s, statusText = t, data = d\<rparr>, isLoading := False\<rparr>"
| "handleTestApi_settle (Responded s t (ParseFailed m)) st =
     st\<lparr>error := Some (ascii ''Error: '' @ m), response := None, isLoading := False\<rparr>"
| "handleTestApi_settle (Rejected m) st =
     st\<lparr>error := Some (ascii ''Error: '' @ m), response := None, isLoading := False\<rparr>"

text \<open>The whole handler against a transport \<open>fetch\<close>, when nothing else happens in between.\<close>

definition handleTestApi :: "(OutboundRequest \<Rightarrow> fetch_outcome) \<Rightarrow> ApiBuilder \<Rightarrow> ApiBuilder" where
  "handleTestApi fetch st =
     (case handleTestApi_begin st of
        (st', Inl e) \<Rightarrow> st'
      | (st', Inr rq) \<Rightarrow> handleTestApi_settle (fetch rq) st')"

section \<open>Export (lines 101 to 109)\<close>

text \<open>
  The document that \<^verbatim>\<open>JSON.stringify(apiConfig, null, 2)\<close> renders. A member whose value
  is \<^verbatim>\<open>undefined\<close> (\<open>None\<close>) is left out by \<^verbatim>\<open>JSON.stringify\<close>; the entries of the two
  lists are rendered with all their properties.
\<close>

definition entry_json :: "KeyValue \<Rightarrow> json" where
  "entry_json e =
     JObj [(ascii ''id'', JNum (kv_id e)), (ascii ''key'', JStr (kv_key e)),
           (ascii ''value'', JStr (kv_value e))]"

definition stringify_object :: "(jsstring \<times> json option) list \<Rightarrow> json" where
  "stringify_object ms =
     JObj (concat (map (\<lambda>(k, v). case v of None \<Rightarrow> [] | Some j \<Rightarrow> [(k, j)]) ms))"

definition handleExport :: "ApiBuilder \<Rightarrow> json" where
  "handleExport st =
     stringify_object
       [(ascii ''apiUrl'', Some (JStr (apiUrl st))),
        (ascii ''apiMethod'', Some (JStr (apiMethod st))),
        (ascii ''queryParams'',
           Some (JArr (map entry_json (filter (\<lambda>p. trim (kv_key p) \<noteq> []) (queryParams st))))),
        (ascii ''headers'',
           Some (JArr (map entry_json (filter (\<lambda>h. trim (kv_key h) \<noteq> []) (headers st))))),
        (ascii ''requestBody'',
           if apiMethod st \<in> set methodsWithBody then Some (JStr (requestBody st)) else None)]"

definition json_member :: "json \<Rightarrow> jsstring \<Rightarrow> json option" where
  "json_member j k = (case j of JObj ms \<Rightarrow> map_of ms k | _ \<Rightarrow> None)"

section \<open>The interactive session\<close>

text \<open>
  The events that reach the component: the buttons and inputs of the markup (lines 140 to
  340) and the settlement of a pending \<^verbatim>\<open>fetch\<close>. The Test API button is disabled while
  \<open>isLoading\<close> holds (line 283); the method comes from the seven options of the select.
  Each event runs to completion; \<open>pending\<close> counts the calls of \<^verbatim>\<open>fetch\<close> not yet settled.
\<close>

datatype event =
    TestApi
  | Settled fetch_outcome
  | LoadExample int int
  | AddQueryParam int
  | UpdateQueryParam int field jsstring
  | RemoveQueryParam int
  | AddHeader int
  | UpdateHeader int field jsstring
  | RemoveHeader int
  | SetApiUrl jsstring
  | SetApiMethod jsstring
  | SetRequestBody jsstring
  | Export

record session =
  ui :: ApiBuilder
  pending :: nat

definition method_options :: "jsstring list" where
  "method_options = [ascii ''GET'', ascii ''POST'', ascii ''PUT'', ascii ''PATCH'',
                     ascii ''DELETE'', ascii ''OPTIONS'', ascii ''HEAD'']"

fun step :: "event \<Rightarrow> session \<Rightarrow> session option" where
  "step TestApi s =
     (if isLoading (ui s) then None
      else (case handleTestApi_begin (ui s) of
              (st', Inl e) \<Rightarrow> Some (s\<lparr>ui := st'\<rparr>)
            | (st', Inr rq) \<Rightarrow> Some (s\<lparr>ui := st', pending := pending s + 1\<rparr>)))"
| "step (Settled out) s =
     (if pending s = 0 then None
      else Some (s\<lparr>ui := handleTestApi_settle out (ui s), pending := pending s - 1\<rparr>))"
| "step (LoadExample now1 now2) s = Some (s\<lparr>ui := loadExample now1 now2 (ui s)\<rparr>)"
| "step (AddQueryParam now) s = Some (s\<lparr>ui := addQueryParam now (ui s)\<rparr>)"
| "step (UpdateQueryParam i f v) s = Some (s\<lparr>ui := updateQueryParam i f v (ui s)\<rparr>)"
| "step (RemoveQueryParam i) s = Some (s\<lparr>ui := removeQueryParam i (ui s)\<rparr>)"
| "step (AddHeader now) s = Some (s\<lparr>ui := addHeader now (ui s)\<rparr>)"
| "step (UpdateHeader i f v) s = Some (s\<lparr>ui := updateHeader i f v (ui s)\<rparr>)"
| "step (RemoveHeader i) s = Some (s\<lparr>ui := removeHeader i (ui s)\<rparr>)"
| "step (SetApiUrl u) s = Some (s\<lparr>ui := (ui s)\<lparr>apiUrl := u\<rparr>\<rparr>)"
| "step (SetApiMethod m) s =
     (if m \<in> set method_options then Some (s\<lparr>ui := (ui s)\<lparr>apiMethod := m\<rparr>\<rparr>) else None)"
| "step (SetRequestBody b) s = Some (s\<lparr>ui := (ui s)\<lparr>requestBody := b\<rparr>\<rparr>)"
| "step Export s = Some s"

fun run :: "event list \<Rightarrow> session \<Rightarrow> session option" where
  "run [] s = Some s"
| "run (e # es) s = (case step e s of None \<Rightarrow> None | Some s' \<Rightarrow> run es s')"

definition start :: "int \<Rightarrow> session" where
  "start now = \<lparr>ui = initial now, pending = 0\<rparr>"

text \<open>The invariant of the session that carries the exclusivity of the display cells.\<close>

definition exclusive :: "session \<Rightarrow> bool" where
  "exclusive s \<longleftrightarrow>
     pending s \<le> 1 \<and> (pending s = 1 \<longrightarrow> isLoading (ui s)) \<and>
     (isLoading (ui s) \<longrightarrow> response (ui s) = None \<and> error (ui s) = None) \<and>
     (response (ui s) = None \<or> error (ui s) = None)"

section \<open>The specification's reading of the URL and of the headers, for comparison\<close>


text \<open>
  The header mapping as the specification words it: an ordered mapping of the entries
  whose trimmed key is not empty, in which a later entry replaces the value of an earlier
  one with the same key.
\<close>

definition headers_as_specified :: "ApiBuilder \<Rightarrow> header_list" where
  "headers_as_specified st =
     foldl (\<lambda>m h. omap_set m (kv_key h) (kv_value h)) []
       (filter (\<lambda>h. trim (kv_key h) \<noteq> []) (headers st))"

section \<open>The specification's reading of export, for comparison\<close>

text \<open>
  The configuration document as the specification words it: the entries of the two
  lists are rendered with the id stripped, as \<^verbatim>\<open>{key, value}\<close> only.
\<close>

definition entry_json_as_specified :: "KeyValue \<Rightarrow> json" where
  "entry_json_as_specified e =
     JObj [(ascii ''key'', JStr (kv_key e)), (ascii ''value'', JStr (kv_value e))]"

definition serialize_as_specified :: "ApiBuilder \<Rightarrow> json" where
  "serialize_as_specified st =
     stringify_object
       [(ascii ''apiUrl'', Some (JStr (apiUrl st))),
        (ascii ''apiMethod'', Some (JStr (apiMethod st))),
        (ascii ''queryParams'',
           Some (JArr (map entry_json_as_specified
                         (filter (\<lambda>p. trim (kv_key p) \<noteq> []) (queryParams st))))),
        (ascii ''headers'',
           Some (JArr (map entry_json_as_specified
                         (filter (\<lambda>h. trim (kv_key h) \<noteq> []) (headers st))))),
        (ascii ''requestBody'',
           if apiMethod st \<in> set methodsWithBody then Some (JStr (requestBody st)) else None)]"

section \<open>Auxiliary notions and example forms\<close>

text \<open>The conditions on one retained header under which \<^verbatim>\<open>append\<close> does not throw.\<close>

definition appendable :: "KeyValue \<Rightarrow> bool" where
  "appendable h \<longleftrightarrow>
     is_bytestring (kv_key h) \<and> is_bytestring (kv_value h) \<and> is_header_name (kv_key h) \<and>
     is_header_value (normalize_value (kv_value h))"

text \<open>
  A header of the assembled list corresponds to an entry of the form: the same name up to
  the case of ASCII letters, and the value of the entry with its outer whitespace stripped.
\<close>

definition corresponds :: "jsstring \<times> jsstring \<Rightarrow> KeyValue \<Rightarrow> bool" where
  "corresponds h e \<longleftrightarrow> same_name (fst h) (kv_key e) \<and> snd h = normalize_value (kv_value e)"


text \<open>A form with two headers of the same name.\<close>

definition two_equal_headers :: ApiBuilder where
  "two_equal_headers = (initial 0)\<lparr>headers :=
        [\<lparr>kv_id = 1, kv_key = ascii ''X'', kv_value = ascii ''1''\<rparr>,
         \<lparr>kv_id = 2, kv_key = ascii ''X'', kv_value = ascii ''2''\<rparr>]\<rparr>"

section \<open>Inverse and no-op laws of the lists\<close>

lemma filter_neq_absent:
  "i \<notin> kv_id ` set xs \<Longrightarrow> filter (\<lambda>p. kv_id p \<noteq> i) xs = xs"
  by (induction xs) auto

lemma map_update_absent:
  "i \<notin> kv_id ` set xs \<Longrightarrow> map (\<lambda>p. if kv_id p = i then g p else p) xs = xs"
  by (induction xs) auto

text \<open>
  What holds of the handlers: an update or a removal by an id that is not in the list
  changes nothing, and a removal undoes an addition when the reading of the clock is not
  an id of the list already.
\<close>

lemma absent_id_is_noop:
  "(i \<notin> kv_id ` set (queryParams st) \<longrightarrow>
      updateQueryParam i f v st = st \<and> removeQueryParam i st = st) \<and>
   (i \<notin> kv_id ` set (headers st) \<longrightarrow>
      updateHeader i f v st = st \<and> removeHeader i st = st)"
  by (simp add: removeQueryParam_def removeHeader_def updateQueryParam_def updateHeader_def
      filter_neq_absent map_update_absent)

lemma remove_undoes_add_of_new_id:
  "(now \<notin> kv_id ` set (queryParams st) \<longrightarrow>
      removeQueryParam now (addQueryParam now st) = st) \<and>
   (now \<notin> kv_id ` set (headers st) \<longrightarrow>
      removeHeader now (addHeader now st) = st)"
  by (simp add: addQueryParam_def removeQueryParam_def addHeader_def removeHeader_def
      filter_neq_absent)

text \<open>
  Claim C9. The addition takes the id from the clock without looking at the list, so the
  added entry need not be fresh, and the removal by its id then takes older rows with
  it. With one query parameter of id 1000 in the list, a second addition in the same
  millisecond followed by the removal of id 1000 leaves the empty list, not the list of
  one row; after the example is loaded at millisecond 1000 (header ids 1000 and 1001), a
  header added at millisecond 1001 and removed again leaves only the header of id 1000.
\<close>

theorem add_then_remove_with_repeated_id:
  "map_option (\<lambda>s. map kv_id (queryParams (ui s)))
     (run [AddQueryParam 1000] (start 0)) = Some [1000] \<and>
   map_option (\<lambda>s. map kv_id (queryParams (ui s)))
     (run [AddQueryParam 1000, AddQueryParam 1000] (start 0)) = Some [1000, 1000] \<and>
   map_option (\<lambda>s. map kv_id (queryParams (ui s)))
     (run [AddQueryParam 1000, AddQueryParam 1000, RemoveQueryParam 1000] (start 0)) = Some [] \<and>
   removeQueryParam 1000 (addQueryParam 1000 (addQueryParam 1000 (initial 0)))
     \<noteq> addQueryParam 1000 (initial 0) \<and>
   map_option (\<lambda>s. map kv_id (headers (ui s)))
     (run [LoadExample 1000 1000] (start 0)) = Some [1000, 1001] \<and>
   map_option (\<lambda>s. map kv_id (headers (ui s)))
     (run [LoadExample 1000 1000, AddHeader 1001, RemoveHeader 1001] (start 0)) = Some [1000] \<and>
   removeHeader 1001 (addHeader 1001 (loadExample 1000 1000 (initial 0)))
     \<noteq> loadExample 1000 1000 (initial 0)"
  by (simp add: start_def initial_def loadExample_def addQueryParam_def removeQueryParam_def
      addHeader_def removeHeader_def)

section \<open>Evaluation of concrete inputs\<close>

lemmas string_eval = ascii_def trim_def is_js_whitespace_def

lemmas headers_eval = requestHeaders_def Headers_append_def header_list_append_def
  is_bytestring_def is_header_name_def is_header_value_def is_tchar_def normalize_value_def
  is_http_whitespace_def same_name_def byte_lowercase_def

lemma assemble_initial:
  "assemble (initial now) =
     Inr \<lparr> req_url = ascii ''https://jsonplaceholder.typicode.com/posts/1'',
           req_method = ascii ''GET'',
           req_headers = [(ascii ''Content-Type'', ascii ''application/json'')],
           req_body = None \<rparr>"
  by (simp add: assemble_def initial_def finalUrl_def methodsWithBody_def headers_eval string_eval)

section \<open>Outcome of a dispatch\<close>

text \<open>
  Claim C2. When the request is assembled and the transport answers it with a response of
  any status whose body parses as JSON, the handler ends with the success document made of
  that status, status text and parsed body, with no error and the pending flag down. The
  instance below is the answer 404 Not Found with the body \<^verbatim>\<open>{"error":"not found"}\<close>.
\<close>

theorem http_response_with_json_body_is_success:
  assumes "assemble st = Inr rq" and "fetch rq = Responded s t (Parsed d)"
  shows "handleTestApi fetch st =
           st\<lparr>isLoading := False, error := None,
              response := Some \<lparr>status = s, statusText = t, data = d\<rparr>\<rparr>"
  using assms by (simp add: handleTestApi_def handleTestApi_begin_def)

theorem http_response_with_json_body_is_success_witness:
  "handleTestApi
     (\<lambda>rq. Responded 404 (ascii ''Not Found'')
            (Parsed (JObj [(ascii ''error'', JStr (ascii ''not found''))])))
     (initial 0) =
   (initial 0)\<lparr>isLoading := False, error := None,
     response := Some \<lparr>status = 404, statusText = ascii ''Not Found'',
                       data = JObj [(ascii ''error'', JStr (ascii ''not found''))]\<rparr>\<rparr>"
  by (rule http_response_with_json_body_is_success [OF assemble_initial refl])


section \<open>Body of the request\<close>

text \<open>
  Claim C4. The assembled request has a body exactly when the method is POST, PUT or PATCH
  and the trimmed body text is not empty, and the body is then the body text itself. The
  instances: GET with the text \<^verbatim>\<open>{"a":1}\<close> has no body, POST with that text has exactly it.
\<close>

theorem body_iff_method_and_nonblank:
  assumes "assemble st = Inr rq"
  shows "req_body rq =
           (if apiMethod st \<in> {ascii ''POST'', ascii ''PUT'', ascii ''PATCH''}
               \<and> trim (requestBody st) \<noteq> []
            then Some (requestBody st) else None)"
  using assms by (auto simp: assemble_def methodsWithBody_def split: sum.splits)

theorem body_iff_method_and_nonblank_witness:
  \<open>(\<exists>rq. assemble ((initial 0)\<lparr>requestBody := ascii ''{"a":1}''\<rparr>) = Inr rq \<and> req_body rq = None) \<and>
   (\<exists>rq. assemble ((initial 0)\<lparr>apiMethod := ascii ''POST'', requestBody := ascii ''{"a":1}''\<rparr>)
           = Inr rq \<and> req_body rq = Some (ascii ''{"a":1}''))\<close>
proof -
  let ?g = \<open>(initial 0)\<lparr>requestBody := ascii ''{"a":1}''\<rparr>\<close>
  let ?p = \<open>(initial 0)\<lparr>apiMethod := ascii ''POST'', requestBody := ascii ''{"a":1}''\<rparr>\<close>
  obtain rg where g: "assemble ?g = Inr rg"
    by (simp add: assemble_def initial_def headers_eval string_eval)
  obtain rp where p: "assemble ?p = Inr rp"
    by (simp add: assemble_def initial_def headers_eval string_eval)
  have "req_body rg = None"
    using body_iff_method_and_nonblank [OF g] by (simp add: initial_def ascii_def)
  moreover have \<open>req_body rp = Some (ascii ''{"a":1}'')\<close>
    using body_iff_method_and_nonblank [OF p] by (simp add: initial_def string_eval)
  ultimately show ?thesis using g p by simp
qed

section \<open>Exclusivity of the display cells\<close>

lemma settle_fields:
  "\<not> isLoading (handleTestApi_settle out st) \<and>
   (response (handleTestApi_settle out st) = None \<or>
      error (handleTestApi_settle out st) = error st)"
  by (cases "(out, st)" rule: handleTestApi_settle.cases) auto

lemma step_exclusive: "exclusive s \<Longrightarrow> step e s = Some s' \<Longrightarrow> exclusive s'"
proof (cases e)
  case TestApi
  assume "exclusive s" "step e s = Some s'"
  with TestApi show ?thesis
    by (auto simp: exclusive_def handleTestApi_begin_def split: if_splits sum.splits)
next
  case (Settled out)
  assume a: "exclusive s" "step e s = Some s'"
  with Settled have p: "pending s = 1"
    and s': "s' = s\<lparr>ui := handleTestApi_settle out (ui s), pending := 0\<rparr>"
    by (auto simp: exclusive_def split: if_splits)
  from a p have "error (ui s) = None" by (simp add: exclusive_def)
  with settle_fields [of out "ui s"] show ?thesis
    by (auto simp: exclusive_def s')
qed (auto simp: exclusive_def loadExample_def addQueryParam_def updateQueryParam_def
       removeQueryParam_def addHeader_def updateHeader_def removeHeader_def split: if_splits)

lemma run_exclusive: "exclusive s \<Longrightarrow> run es s = Some s' \<Longrightarrow> exclusive s'"
  by (induction es arbitrary: s) (auto split: option.splits dest: step_exclusive)

text \<open>
  Claim C6. In every state that the session reaches from its start by the events of the
  component, each of them run to completion, the pending flag is never up together with
  a response or an error, and the response and the error are never both present.
\<close>

theorem display_fields_mutually_exclusive:
  assumes "run es (start now) = Some s"
  shows "(isLoading (ui s) \<longrightarrow> response (ui s) = None \<and> error (ui s) = None) \<and>
         \<not> (response (ui s) \<noteq> None \<and> error (ui s) \<noteq> None)"
proof -
  have "exclusive (start now)" by (simp add: exclusive_def start_def initial_def)
  from run_exclusive [OF this assms] show ?thesis by (auto simp: exclusive_def)
qed

theorem display_fields_mutually_exclusive_witness:
  "\<exists>s. run [TestApi, Settled (Rejected (ascii ''Failed to fetch'')), TestApi,
             Settled (Responded 200 (ascii ''OK'') (Parsed JNull))] (start 0) = Some s \<and>
        response (ui s) \<noteq> None \<and> error (ui s) = None \<and> \<not> isLoading (ui s)"
proof -
  obtain s where r: "run [TestApi, Settled (Rejected (ascii ''Failed to fetch'')), TestApi,
             Settled (Responded 200 (ascii ''OK'') (Parsed JNull))] (start 0) = Some s"
    and p: "response (ui s) \<noteq> None"
    by (simp add: start_def handleTestApi_begin_def initial_def assemble_def finalUrl_def
        methodsWithBody_def headers_eval string_eval)
  from display_fields_mutually_exclusive [OF r] p show ?thesis
    using r by auto
qed

section \<open>Identifiers of the entries\<close>

text \<open>
  Claim C8. The ids are readings of the clock, so two entries of one list can carry the same
  id: an example loaded at millisecond 1000 gives the headers the ids 1000 and 1001, and a
  header added one millisecond later gets the id 1001 again; two query parameters added
  within one millisecond share their id.
\<close>

theorem entry_ids_can_collide:
  "map_option (\<lambda>s. map kv_id (headers (ui s)))
     (run [LoadExample 1000 1000, AddHeader 1001] (start 0)) = Some [1000, 1001, 1001] \<and>
   map_option (\<lambda>s. map kv_id (queryParams (ui s)))
     (run [AddQueryParam 1000, AddQueryParam 1000] (start 0)) = Some [1000, 1000]"
  by (simp add: start_def loadExample_def addHeader_def addQueryParam_def initial_def)

section \<open>Query string of the URL\<close>

lemma omap_set_keys:
  "map fst (omap_set m k v) = (if k \<in> set (map fst m) then map fst m else map fst m @ [k])"
  by (induction m) (auto simp: omap_set_def)









lemma collect_keys:
  "set (map fst (foldl (\<lambda>r e. omap_set r (f e) (g e)) [] es)) = f ` set es"
  by (induction es rule: rev_induct) (auto simp: omap_set_keys)




























section \<open>Headers of the request\<close>

lemma same_name_refl [simp]: "same_name a a"
  by (simp add: same_name_def)

lemma find_Some_holds: "find P xs = Some x \<Longrightarrow> P x"
  by (induction xs) (auto split: if_splits)

lemma header_list_append_last:
  "\<exists>n. header_list_append hl name v = hl @ [(n, v)] \<and> same_name n name"
  by (auto simp: header_list_append_def split: option.splits dest: find_Some_holds)

lemma Headers_append_Inr:
  "Headers_append hl (kv_key h) (kv_value h) = Inr hl' \<longleftrightarrow>
     appendable h \<and> hl' = header_list_append hl (kv_key h) (normalize_value (kv_value h))"
  by (auto simp: Headers_append_def appendable_def)

lemma appendHeaders_Inr:
  "appendHeaders hs acc = Inr hl \<Longrightarrow>
     \<exists>new. hl = acc @ new \<and>
       list_all2 corresponds new (filter (\<lambda>h. trim (kv_key h) \<noteq> []) hs)"
proof (induction hs arbitrary: acc)
  case Nil
  then show ?case by simp
next
  case (Cons h hs)
  show ?case
  proof (cases "trim (kv_key h) \<noteq> []")
    case False
    with Cons show ?thesis by simp
  next
    case True
    with Cons.prems obtain hl' where a: "Headers_append acc (kv_key h) (kv_value h) = Inr hl'"
      and r: "appendHeaders hs hl' = Inr hl"
      by (auto split: sum.splits)
    from a obtain n where hl': "hl' = acc @ [(n, normalize_value (kv_value h))]"
      and n: "same_name n (kv_key h)"
      using header_list_append_last [of acc "kv_key h" "normalize_value (kv_value h)"]
      by (auto simp: Headers_append_Inr)
    from Cons.IH [OF r] obtain new where new: "hl = hl' @ new"
      and c: "list_all2 corresponds new (filter (\<lambda>h. trim (kv_key h) \<noteq> []) hs)"
      by blast
    have "hl = acc @ ((n, normalize_value (kv_value h)) # new)"
      by (simp add: new hl')
    moreover have "list_all2 corresponds ((n, normalize_value (kv_value h)) # new)
        (filter (\<lambda>h. trim (kv_key h) \<noteq> []) (h # hs))"
      using True c n by (simp add: corresponds_def)
    ultimately show ?thesis by blast
  qed
qed

lemma appendHeaders_succeeds:
  "(\<exists>hl. appendHeaders hs acc = Inr hl) \<longleftrightarrow>
     (\<forall>h \<in> set (filter (\<lambda>h. trim (kv_key h) \<noteq> []) hs). appendable h)"
proof (induction hs arbitrary: acc)
  case Nil
  then show ?case by simp
next
  case (Cons h hs)
  show ?case
  proof (cases "trim (kv_key h) \<noteq> []")
    case False
    with Cons show ?thesis by simp
  next
    case True
    show ?thesis
    proof (cases "appendable h")
      case False
      then have "Headers_append acc (kv_key h) (kv_value h) = Inl TypeError"
        by (auto simp: Headers_append_def appendable_def)
      with True False show ?thesis by simp
    next
      case ok: True
      then have "Headers_append acc (kv_key h) (kv_value h) =
          Inr (header_list_append acc (kv_key h) (normalize_value (kv_value h)))"
        by (simp add: Headers_append_Inr)
      with True ok Cons.IH show ?thesis by simp
    qed
  qed
qed

lemma get_of_corresponding:
  "list_all2 corresponds hl es \<Longrightarrow>
     map snd (filter (\<lambda>h. same_name (fst h) name) hl) =
     map (\<lambda>e. normalize_value (kv_value e)) (filter (\<lambda>e. same_name (kv_key e) name) es)"
  by (induction rule: list_all2_induct) (auto simp: corresponds_def same_name_def)


text \<open>
  Claim C7, as stated, fails: two retained headers of the same name are both kept. For the
  form with the headers \<^verbatim>\<open>X: 1\<close> and \<^verbatim>\<open>X: 2\<close> the assembled list has both, not only the
  last, and reading \<^verbatim>\<open>X\<close> gives \<^verbatim>\<open>1, 2\<close>.
\<close>

theorem duplicate_headers_counterexample:
  "requestHeaders two_equal_headers = Inr [(ascii ''X'', ascii ''1''), (ascii ''X'', ascii ''2'')] \<and>
   headers_as_specified two_equal_headers = [(ascii ''X'', ascii ''2'')] \<and>
   requestHeaders two_equal_headers \<noteq> Inr (headers_as_specified two_equal_headers) \<and>
   header_list_get [(ascii ''X'', ascii ''1''), (ascii ''X'', ascii ''2'')] (ascii ''X'')
     = Some (ascii ''1, 2'')"
  by (simp add: two_equal_headers_def headers_as_specified_def omap_set_def header_list_get_def headers_eval string_eval)

text \<open>
  Claim C7, amended. The assembly of the headers succeeds exactly when every entry whose
  trimmed key is not empty has a valid header name and value. The assembled list then has
  one header for each such entry, in the order of the form, the entries of empty trimmed
  key left out: the name is the key up to the case of ASCII letters, the value is the
  value with its outer HTTP whitespace stripped. Headers of the same name are all kept:
  reading a name gives the values of all retained entries of that name, in order, joined
  by a comma and a space.
\<close>

theorem headers_appended_in_order:
  "((\<exists>hl. requestHeaders st = Inr hl) \<longleftrightarrow>
      (\<forall>h \<in> set (filter (\<lambda>h. trim (kv_key h) \<noteq> []) (headers st)). appendable h)) \<and>
   (\<forall>hl. requestHeaders st = Inr hl \<longrightarrow>
      list_all2 (\<lambda>h e. same_name (fst h) (kv_key e) \<and> snd h = normalize_value (kv_value e))
        hl (filter (\<lambda>h. trim (kv_key h) \<noteq> []) (headers st)) \<and>
      (\<forall>name. header_list_get hl name =
         (if \<exists>e \<in> set (headers st). trim (kv_key e) \<noteq> [] \<and> same_name (kv_key e) name
          then Some (join_values (map (\<lambda>e. normalize_value (kv_value e))
                 (filter (\<lambda>e. trim (kv_key e) \<noteq> [] \<and> same_name (kv_key e) name) (headers st))))
          else None)))"
proof (intro conjI allI impI)
  show "(\<exists>hl. requestHeaders st = Inr hl) \<longleftrightarrow>
      (\<forall>h \<in> set (filter (\<lambda>h. trim (kv_key h) \<noteq> []) (headers st)). appendable h)"
    unfolding requestHeaders_def by (rule appendHeaders_succeeds)
next
  fix hl assume "requestHeaders st = Inr hl"
  then have c: "list_all2 corresponds hl (filter (\<lambda>h. trim (kv_key h) \<noteq> []) (headers st))"
    using appendHeaders_Inr [of "headers st" "[]" hl] by (simp add: requestHeaders_def)
  then show "list_all2 (\<lambda>h e. same_name (fst h) (kv_key e) \<and> snd h = normalize_value (kv_value e))
        hl (filter (\<lambda>h. trim (kv_key h) \<noteq> []) (headers st))"
    by (simp add: corresponds_def [abs_def])
  fix name
  have f: "filter (\<lambda>e. same_name (kv_key e) name) (filter (\<lambda>h. trim (kv_key h) \<noteq> []) (headers st))
      = filter (\<lambda>e. trim (kv_key e) \<noteq> [] \<and> same_name (kv_key e) name) (headers st)"
    by (simp add: conj_commute)
  have e: "(filter (\<lambda>e. trim (kv_key e) \<noteq> [] \<and> same_name (kv_key e) name) (headers st) = []) \<longleftrightarrow>
      \<not> (\<exists>e \<in> set (headers st). trim (kv_key e) \<noteq> [] \<and> same_name (kv_key e) name)"
    by (simp add: filter_empty_conv)
  show "header_list_get hl name =
         (if \<exists>e \<in> set (headers st). trim (kv_key e) \<noteq> [] \<and> same_name (kv_key e) name
          then Some (join_values (map (\<lambda>e. normalize_value (kv_value e))
                 (filter (\<lambda>e. trim (kv_key e) \<noteq> [] \<and> same_name (kv_key e) name) (headers st))))
          else None)"
    unfolding header_list_get_def get_of_corresponding [OF c] f
    using e by (simp add: Let_def)
qed

theorem headers_appended_in_order_witness:
  "requestHeaders two_equal_headers = Inr [(ascii ''X'', ascii ''1''), (ascii ''X'', ascii ''2'')] \<and>
   header_list_get [(ascii ''X'', ascii ''1''), (ascii ''X'', ascii ''2'')] (ascii ''x'')
     = Some (ascii ''1, 2'')"
proof -
  have r: "requestHeaders two_equal_headers = Inr [(ascii ''X'', ascii ''1''), (ascii ''X'', ascii ''2'')]"
    by (simp add: two_equal_headers_def headers_eval string_eval)
  from headers_appended_in_order [of two_equal_headers] r
  have "header_list_get [(ascii ''X'', ascii ''1''), (ascii ''X'', ascii ''2'')] (ascii ''x'') =
         (if \<exists>e \<in> set (headers two_equal_headers). trim (kv_key e) \<noteq> [] \<and> same_name (kv_key e) (ascii ''x'')
          then Some (join_values (map (\<lambda>e. normalize_value (kv_value e))
                 (filter (\<lambda>e. trim (kv_key e) \<noteq> [] \<and> same_name (kv_key e) (ascii ''x'')) (headers two_equal_headers))))
          else None)"
    by blast
  then show ?thesis using r
    by (simp add: two_equal_headers_def headers_eval string_eval)
qed


section \<open>Exported configuration\<close>

text \<open>
  Claim C5, as stated, fails: the exported entries keep their id. For a state with one
  header of empty key and one header \<^verbatim>\<open>Accept\<close>, the headers member of the exported
  document is not the array of \<^verbatim>\<open>{key, value}\<close> objects that the specification words.
\<close>

theorem export_keeps_ids_counterexample:
  "json_member
     (handleExport ((initial 0)\<lparr>headers :=
        [\<lparr>kv_id = 1, kv_key = [], kv_value = ascii ''x''\<rparr>,
         \<lparr>kv_id = 2, kv_key = ascii ''Accept'', kv_value = ascii ''*/*''\<rparr>]\<rparr>))
     (ascii ''headers'')
   \<noteq> json_member
     (serialize_as_specified ((initial 0)\<lparr>headers :=
        [\<lparr>kv_id = 1, kv_key = [], kv_value = ascii ''x''\<rparr>,
         \<lparr>kv_id = 2, kv_key = ascii ''Accept'', kv_value = ascii ''*/*''\<rparr>]\<rparr>))
     (ascii ''headers'')"
  by (simp add: handleExport_def serialize_as_specified_def stringify_object_def json_member_def
      entry_json_def entry_json_as_specified_def initial_def string_eval)

text \<open>
  Claim C5, amended. The exported document has the members \<^verbatim>\<open>apiUrl\<close> and \<^verbatim>\<open>apiMethod\<close>;
  its members \<^verbatim>\<open>queryParams\<close> and \<^verbatim>\<open>headers\<close> are the arrays of exactly the entries whose
  trimmed key is not empty, in order, each rendered with its id, key and value; the member
  \<^verbatim>\<open>requestBody\<close> is present exactly when the method is POST, PUT or PATCH and is then the
  body text.
\<close>

theorem export_document_members:
  "json_member (handleExport st) (ascii ''apiUrl'') = Some (JStr (apiUrl st)) \<and>
   json_member (handleExport st) (ascii ''apiMethod'') = Some (JStr (apiMethod st)) \<and>
   json_member (handleExport st) (ascii ''queryParams'') =
     Some (JArr (map (\<lambda>e. JObj [(ascii ''id'', JNum (kv_id e)), (ascii ''key'', JStr (kv_key e)),
                               (ascii ''value'', JStr (kv_value e))])
                   (filter (\<lambda>e. trim (kv_key e) \<noteq> []) (queryParams st)))) \<and>
   json_member (handleExport st) (ascii ''headers'') =
     Some (JArr (map (\<lambda>e. JObj [(ascii ''id'', JNum (kv_id e)), (ascii ''key'', JStr (kv_key e)),
                               (ascii ''value'', JStr (kv_value e))])
                   (filter (\<lambda>e. trim (kv_key e) \<noteq> []) (headers st)))) \<and>
   json_member (handleExport st) (ascii ''requestBody'') =
     (if apiMethod st \<in> {ascii ''POST'', ascii ''PUT'', ascii ''PATCH''}
      then Some (JStr (requestBody st)) else None)"
  by (simp add: handleExport_def stringify_object_def json_member_def entry_json_def
      methodsWithBody_def ascii_def)

theorem export_document_members_witness:
  "json_member
     (handleExport ((initial 0)\<lparr>headers :=
        [\<lparr>kv_id = 1, kv_key = [], kv_value = ascii ''x''\<rparr>,
         \<lparr>kv_id = 2, kv_key = ascii ''Accept'', kv_value = ascii ''*/*''\<rparr>]\<rparr>))
     (ascii ''headers'')
   = Some (JArr [JObj [(ascii ''id'', JNum 2), (ascii ''key'', JStr (ascii ''Accept'')),
                       (ascii ''value'', JStr (ascii ''*/*''))]]) \<and>
   json_member
     (handleExport ((initial 0)\<lparr>headers :=
        [\<lparr>kv_id = 1, kv_key = [], kv_value = ascii ''x''\<rparr>,
         \<lparr>kv_id = 2, kv_key = ascii ''Accept'', kv_value = ascii ''*/*''\<rparr>]\<rparr>))
     (ascii ''requestBody'') = None"
  using export_document_members
    [of "(initial 0)\<lparr>headers :=
        [\<lparr>kv_id = 1, kv_key = [], kv_value = ascii ''x''\<rparr>,
         \<lparr>kv_id = 2, kv_key = ascii ''Accept'', kv_value = ascii ''*/*''\<rparr>]\<rparr>"]
  by (simp add: initial_def string_eval)

end
